theory Spec2Isabelle
  imports Complex_Main "HOL-Library.FSet"
begin

unbundle bit_operations_syntax

section \<open>Errors\<close>

text \<open>
  The exceptions the modelled code raises. A function that can raise returns
  \<open>error + 'a\<close>, with \<open>Inl\<close> for the exception.
\<close>

datatype error = ArithmeticError | NotImplementedError | TypeConstraintError

section \<open>Style (src/screen/drawing/style.py)\<close>

text \<open>
  A \<open>Style\<close> object has the single slot \<open>values\<close>, a Python set of integers. Python sets
  are finite, so the slot is an \<open>int fset\<close>.
\<close>

record Style =
  Style_values :: "int fset"

text \<open>\<open>__init__(self, *values)\<close>: \<open>self.values = set(values)\<close>.\<close>

definition Style_init :: "int list \<Rightarrow> Style" where
  "Style_init vs = \<lparr>Style_values = fset_of_list vs\<rparr>"

text \<open>
  \<open>__eq__\<close>: \<open>isinstance(other, self.__class__) and self.values == other.values\<close>. Both
  arguments are styles here, so the \<open>isinstance\<close> test is true.
\<close>

definition Style_eq :: "Style \<Rightarrow> Style \<Rightarrow> bool" where
  "Style_eq x y = (Style_values x = Style_values y)"

text \<open>
  The class attribute \<open>reset = 0\<close> is replaced by the metaclass: \<open>cls(*0)\<close> raises
  \<open>TypeError\<close>, so the attribute becomes \<open>cls(0)\<close>. Likewise
  \<open>reset_color = (39, 49)\<close> becomes \<open>cls(39, 49)\<close>.
\<close>

definition Style_reset :: Style where
  "Style_reset = Style_init [0]"

definition Style_reset_color :: Style where
  "Style_reset_color = Style_init [39, 49]"

text \<open>
  \<open>__or__\<close> for two styles. \<open>cls(*self.values, *other.values)\<close> iterates both sets and
  hands the elements to \<open>__init__\<close>, which builds a set again; the order of iteration
  (here: ascending) cannot be seen in the result.
\<close>

definition Style_or :: "Style \<Rightarrow> Style \<Rightarrow> error + Style" where
  "Style_or x y =
     (if Style_eq x Style_reset \<or> Style_eq y Style_reset then Inl ArithmeticError
      else Inr (Style_init (sorted_list_of_fset (Style_values x) @
                            sorted_list_of_fset (Style_values y))))"

text \<open>
  The same operator on objects in a store, to make visible what it writes. A reference
  is an index into the list of allocated \<open>Style\<close> objects. The method body assigns to no
  slot of \<open>self\<close> or \<open>other\<close>; the only write is \<open>__init__\<close> filling the newly
  allocated result. An index that is not allocated is no reference (\<open>None\<close>).
\<close>

definition Style_or_at :: "Style list \<Rightarrow> nat \<Rightarrow> nat \<Rightarrow> ((error + nat) \<times> Style list) option" where
  "Style_or_at st a b =
     (if a < length st \<and> b < length st then
        Some (case Style_or (st ! a) (st ! b) of
                Inl e \<Rightarrow> (Inl e, st)
              | Inr s \<Rightarrow> (Inr (length st), st @ [s]))
      else None)"

text \<open>Python's \<open>str\<close> on an integer: decimal digits, with a minus sign when negative.\<close>

function str_nat :: "nat \<Rightarrow> string" where
  "str_nat n = (if n < 10 then [char_of (48 + n)]
                else str_nat (n div 10) @ [char_of (48 + n mod 10)])"
  by pat_completeness auto
termination
  by (relation "measure id") auto

declare str_nat.simps [simp del]

definition str_int :: "int \<Rightarrow> string" where
  "str_int i = (if i < 0 then CHR ''-'' # str_nat (nat (- i)) else str_nat (nat i))"

text \<open>\<open>sep.join(xs)\<close>.\<close>

fun join :: "string \<Rightarrow> string list \<Rightarrow> string" where
  "join sep [] = []"
| "join sep [x] = x"
| "join sep (x # y # ys) = x @ sep @ join sep (y # ys)"

text \<open>
  \<open>build\<close>: \<open>value = ";".join([str(v) for v in sorted(self.values)])\<close>, then
  \<open>f"\x1B[{value}m"\<close>.
\<close>

definition build :: "Style \<Rightarrow> string" where
  "build s = (let v = join '';'' (map str_int (sorted_list_of_fset (Style_values s)))
              in [CHR 0x1B, CHR ''[''] @ v @ ''m'')"

text \<open>Sequencing of two operations that can raise: the second runs on the first's result.\<close>

definition or_then :: "error + Style \<Rightarrow> (Style \<Rightarrow> error + Style) \<Rightarrow> error + Style" where
  "or_then r f = (case r of Inl e \<Rightarrow> Inl e | Inr s \<Rightarrow> f s)"

section \<open>Property declarations (src/screen/controls)\<close>

text \<open>
  The values a property can hold, as far as the declarations under
  \<open>src/screen/controls\<close> need them: \<open>None\<close>, an \<open>int\<close>, a \<open>str\<close> (the list of its code
  points), a member of an enumeration (class name and member name; the module
  \<open>screen.controls.primitives\<close> that declares \<open>Bullet\<close>, \<open>Orientation\<close> and \<open>Placement\<close>
  is not part of the sources), a list, and a reference to a control.
\<close>

datatype pyval =
    PyNone
  | PyInt int
  | PyStr "nat list"
  | PyEnum string string
  | PyList "pyval list"
  | PyControl nat

text \<open>A string literal as a Python \<open>str\<close>.\<close>

definition py_str :: "string \<Rightarrow> pyval" where
  "py_str s = PyStr (map of_char s)"

text \<open>
  Modelled from the spec: \<open>screen.utils.len\<close>, imported by \<open>stack.py\<close>, is not among the
  sources. The spec speaks of the length of the bullet string, so it is the number of
  code points of the string.
\<close>

definition utils_len :: "nat list \<Rightarrow> nat" where
  "utils_len s = length s"

text \<open>
  \<open>_bullet_invalidate_measure(before, after)\<close>:
  \<open>not (isinstance(before, str) and isinstance(after, str) and len(before) == len(after))\<close>.
  The two \<open>isinstance\<close> tests are the pattern; \<open>len\<close> is only reached for two strings.
\<close>

definition bullet_invalidate_measure :: "pyval \<Rightarrow> pyval \<Rightarrow> bool" where
  "bullet_invalidate_measure before after =
     (\<not> (case (before, after) of
            (PyStr s, PyStr t) \<Rightarrow> utils_len s = utils_len t
          | _ \<Rightarrow> False))"

text \<open>
  An invalidation rule is a constant (\<open>True\<close>, \<open>False\<close>) or a callable of the old and the
  new value.
\<close>

datatype rule = Constant bool | Predicate "pyval \<Rightarrow> pyval \<Rightarrow> bool"

text \<open>
  Modelled from the spec: the descriptor class \<open>property\<close> of \<open>screen.controls\<close> is not
  among the sources. The spec gives its arguments as
  \<open>define(type_spec, default, nullable, measure_rule, paint_rule)\<close>; a type
  specification is the set of the values it admits.
\<close>

record descriptor =
  type_spec :: "pyval \<Rightarrow> bool"
  default_value :: pyval
  nullable :: bool
  measure_rule :: rule
  paint_rule :: rule

definition is_int :: "pyval \<Rightarrow> bool" where
  "is_int v = (case v of PyInt _ \<Rightarrow> True | _ \<Rightarrow> False)"

definition is_str :: "pyval \<Rightarrow> bool" where
  "is_str v = (case v of PyStr _ \<Rightarrow> True | _ \<Rightarrow> False)"

definition is_enum :: "string \<Rightarrow> pyval \<Rightarrow> bool" where
  "is_enum cls v = (case v of PyEnum c _ \<Rightarrow> c = cls | _ \<Rightarrow> False)"

definition is_control :: "pyval \<Rightarrow> bool" where
  "is_control v = (case v of PyControl _ \<Rightarrow> True | _ \<Rightarrow> False)"

definition is_list_of :: "(pyval \<Rightarrow> bool) \<Rightarrow> pyval \<Rightarrow> bool" where
  "is_list_of t v = (case v of PyList vs \<Rightarrow> list_all t vs | _ \<Rightarrow> False)"

definition is_union :: "(pyval \<Rightarrow> bool) \<Rightarrow> (pyval \<Rightarrow> bool) \<Rightarrow> pyval \<Rightarrow> bool" where
  "is_union s t v = (s v \<or> t v)"

text \<open>The four properties of \<open>Stack\<close> (\<open>stack.py\<close>), in the order of the source.\<close>

definition Stack_bullet :: descriptor where
  "Stack_bullet = \<lparr>type_spec = is_union (is_enum ''Bullet'') is_str,
     default_value = PyEnum ''Bullet'' ''none'', nullable = True,
     measure_rule = Predicate bullet_invalidate_measure, paint_rule = Constant True\<rparr>"

definition Stack_children :: descriptor where
  "Stack_children = \<lparr>type_spec = is_list_of is_control,
     default_value = PyNone, nullable = False,
     measure_rule = Constant True, paint_rule = Constant True\<rparr>"

definition Stack_orientation :: descriptor where
  "Stack_orientation = \<lparr>type_spec = is_enum ''Orientation'',
     default_value = PyEnum ''Orientation'' ''horizontal'', nullable = True,
     measure_rule = Constant True, paint_rule = Constant True\<rparr>"

definition Stack_spacing :: descriptor where
  "Stack_spacing = \<lparr>type_spec = is_int,
     default_value = PyInt 0, nullable = True,
     measure_rule = Constant True, paint_rule = Constant True\<rparr>"

text \<open>The three properties of \<open>Popup\<close> (\<open>popup.py\<close>).\<close>

definition Popup_horizontal_offset :: descriptor where
  "Popup_horizontal_offset = \<lparr>type_spec = is_int,
     default_value = PyInt 0, nullable = True,
     measure_rule = Constant False, paint_rule = Constant False\<rparr>"

definition Popup_placement :: descriptor where
  "Popup_placement = \<lparr>type_spec = is_enum ''Placement'',
     default_value = PyEnum ''Placement'' ''cursor'', nullable = True,
     measure_rule = Constant False, paint_rule = Constant False\<rparr>"

definition Popup_vertical_offset :: descriptor where
  "Popup_vertical_offset = \<lparr>type_spec = is_int,
     default_value = PyInt 0, nullable = True,
     measure_rule = Constant False, paint_rule = Constant False\<rparr>"

definition Popup_properties :: "(string \<times> descriptor) list" where
  "Popup_properties =
     [(''horizontal_offset'', Popup_horizontal_offset),
      (''placement'', Popup_placement),
      (''vertical_offset'', Popup_vertical_offset)]"

section \<open>Assignment through a descriptor\<close>

text \<open>
  Modelled from the spec: the base class \<open>Control\<close> of \<open>screen.controls\<close> is not among
  the sources. The spec gives a control a mapping from property names to current
  values, a measure-dirty flag and a paint-dirty flag; a property that was never
  assigned holds its declared default.
\<close>

record control =
  props :: "string \<rightharpoonup> pyval"
  measure_dirty :: bool
  paint_dirty :: bool

definition current :: "descriptor \<Rightarrow> string \<Rightarrow> control \<Rightarrow> pyval" where
  "current d name c = (case props c name of Some v \<Rightarrow> v | None \<Rightarrow> default_value d)"

text \<open>
  Modelled from the spec: a value is admitted when it is of the declared type or
  union, and \<open>None\<close> exactly when the property is nullable.
\<close>

definition accepts :: "descriptor \<Rightarrow> pyval \<Rightarrow> bool" where
  "accepts d v = (if v = PyNone then nullable d else type_spec d v)"

text \<open>
  Modelled from the spec: a constant rule is used directly, a callable one is invoked
  with the old and the new value.
\<close>

definition fires :: "rule \<Rightarrow> pyval \<Rightarrow> pyval \<Rightarrow> bool" where
  "fires r old new = (case r of Constant b \<Rightarrow> b | Predicate f \<Rightarrow> f old new)"

text \<open>
  Modelled from the spec: assignment of \<open>new\<close> to the property \<open>name\<close> declared by \<open>d\<close>.
  A value that is not admitted fails with \<open>TypeConstraintError\<close>; otherwise both rules
  are evaluated on the old and the new value, the new value is stored, and the control is
  marked measure-dirty and paint-dirty as the rules fired. The result is the exception,
  if any, and the control after the call.
\<close>

definition assign :: "descriptor \<Rightarrow> string \<Rightarrow> pyval \<Rightarrow> control \<Rightarrow> error option \<times> control" where
  "assign d name new c =
     (if \<not> accepts d new then (Some TypeConstraintError, c)
      else
        let old = current d name c;
            m = fires (measure_rule d) old new;
            p = fires (paint_rule d) old new
        in (None, c\<lparr>props := (props c)(name \<mapsto> new),
                     measure_dirty := (measure_dirty c \<or> m),
                     paint_dirty := (paint_dirty c \<or> p)\<rparr>))"

section \<open>Stack (src/screen/controls/stack.py)\<close>

text \<open>
  A \<open>Stack\<close> with the values of its four properties. The class of the children,
  \<open>Control\<close>, is not among the sources, so the type of a child is left open.
\<close>

record 'c Stack =
  bullet :: pyval
  children :: "'c list"
  orientation :: pyval
  spacing :: int

text \<open>
  \<open>measure_core(self, h, w)\<close> and \<open>render_core(self, h, w)\<close>: the body of each is
  \<open>raise NotImplementedError\<close>. A measure would be a pair (height, width); the type of a
  rendered surface is left open.
\<close>

definition measure_core :: "'c Stack \<Rightarrow> int \<Rightarrow> int \<Rightarrow> error + (int \<times> int)" where
  "measure_core self h w = Inl NotImplementedError"

definition render_core :: "'c Stack \<Rightarrow> int \<Rightarrow> int \<Rightarrow> error + 'r" where
  "render_core self h w = Inl NotImplementedError"

text \<open>
  The measure the specification describes for a horizontal stack whose children have
  fixed natural sizes (height, width), written from its words: the width is the sum of
  the children's widths plus the spacing between neighbours plus the bullet
  reservations, the height is the largest height, clamped to the available height.
\<close>

definition spec_measure_horizontal :: "(int \<times> int) list \<Rightarrow> int \<Rightarrow> int \<Rightarrow> int \<Rightarrow> int \<times> int" where
  "spec_measure_horizontal cs s bullets h =
     (min h (fold max (map fst cs) 0),
      sum_list (map snd cs) + s * (int (length cs) - 1) + bullets)"

section \<open>Numbers\<close>

text \<open>
  A Python \<open>float\<close> is modelled by the real number it denotes, and the arithmetic on
  floats by the exact operations on the reals; the rounding of floating-point results is
  not modelled. A Python \<open>int\<close> is an \<open>int\<close>; where the source mixes the two, the integer
  is converted as Python does.
\<close>

text \<open>\<open>int(x)\<close> on a float truncates towards zero.\<close>

definition py_int :: "real \<Rightarrow> int" where
  "py_int x = (if 0 \<le> x then \<lfloor>x\<rfloor> else \<lceil>x\<rceil>)"

text \<open>\<open>round(x, 0)\<close> on a float rounds to the nearest integer, a tie to the even one.\<close>

definition py_round :: "real \<Rightarrow> real" where
  "py_round x =
     (let f = \<lfloor>x\<rfloor>; d = x - of_int f
      in if d < 1 / 2 then of_int f
         else if 1 / 2 < d then of_int (f + 1)
         else if even f then of_int f else of_int (f + 1))"

text \<open>\<open>x % 1.0\<close>: the remainder has the sign of the divisor.\<close>

definition mod1 :: "real \<Rightarrow> real" where
  "mod1 x = x - of_int \<lfloor>x\<rfloor>"

text \<open>
  Modelled from the spec: \<open>screen.utils.interpolate\<close>, called by \<open>color.py\<close>, is not among
  the sources. The spec calls the interpolation linear, so the point at \<open>p\<close> between \<open>a\<close>
  and \<open>b\<close> is \<open>a + (b - a) * p\<close>.
\<close>

definition utils_interpolate :: "real \<Rightarrow> real \<Rightarrow> real \<Rightarrow> real" where
  "utils_interpolate a b p = a + (b - a) * p"

section \<open>The standard module colorsys\<close>

text \<open>
  \<open>color.py\<close> converts between color spaces with four functions of Python's standard
  module \<open>colorsys\<close>, transcribed here from its source: \<open>rgb_to_hls\<close>, \<open>hls_to_rgb\<close> with
  its helper \<open>_v\<close>, \<open>rgb_to_hsv\<close> and \<open>hsv_to_rgb\<close>. They carry the prefix \<open>colorsys\<close> here,
  since \<open>color.py\<close> has functions of its own called \<open>_hsv_to_rgb\<close> and \<open>_rgb_to_hsv\<close>.
\<close>

definition colorsys_rgb_to_hls :: "real \<Rightarrow> real \<Rightarrow> real \<Rightarrow> real \<times> real \<times> real" where
  "colorsys_rgb_to_hls r g b =
     (let maxc = max (max r g) b;
          minc = min (min r g) b;
          sumc = maxc + minc;
          rangec = maxc - minc;
          l = sumc / 2
      in if minc = maxc then (0, l, 0)
         else
           let s = (if l \<le> 1 / 2 then rangec / sumc else rangec / (2 - maxc - minc));
               rc = (maxc - r) / rangec;
               gc = (maxc - g) / rangec;
               bc = (maxc - b) / rangec;
               h = (if r = maxc then bc - gc
                    else if g = maxc then 2 + rc - bc
                    else 4 + gc - rc)
           in (mod1 (h / 6), l, s))"

definition colorsys_v :: "real \<Rightarrow> real \<Rightarrow> real \<Rightarrow> real" where
  "colorsys_v m1 m2 hue0 =
     (let hue = mod1 hue0
      in if hue < 1 / 6 then m1 + (m2 - m1) * hue * 6
         else if hue < 1 / 2 then m2
         else if hue < 2 / 3 then m1 + (m2 - m1) * (2 / 3 - hue) * 6
         else m1)"

definition colorsys_hls_to_rgb :: "real \<Rightarrow> real \<Rightarrow> real \<Rightarrow> real \<times> real \<times> real" where
  "colorsys_hls_to_rgb h l s =
     (if s = 0 then (l, l, l)
      else
        let m2 = (if l \<le> 1 / 2 then l * (1 + s) else l + s - l * s);
            m1 = 2 * l - m2
        in (colorsys_v m1 m2 (h + 1 / 3), colorsys_v m1 m2 h, colorsys_v m1 m2 (h - 1 / 3)))"

definition colorsys_rgb_to_hsv :: "real \<Rightarrow> real \<Rightarrow> real \<Rightarrow> real \<times> real \<times> real" where
  "colorsys_rgb_to_hsv r g b =
     (let maxc = max (max r g) b;
          minc = min (min r g) b;
          rangec = maxc - minc;
          v = maxc
      in if minc = maxc then (0, 0, v)
         else
           let s = rangec / maxc;
               rc = (maxc - r) / rangec;
               gc = (maxc - g) / rangec;
               bc = (maxc - b) / rangec;
               h = (if r = maxc then bc - gc
                    else if g = maxc then 2 + rc - bc
                    else 4 + gc - rc)
           in (mod1 (h / 6), s, v))"

definition colorsys_hsv_to_rgb :: "real \<Rightarrow> real \<Rightarrow> real \<Rightarrow> real \<times> real \<times> real" where
  "colorsys_hsv_to_rgb h s v =
     (if s = 0 then (v, v, v)
      else
        let i0 = py_int (h * 6);
            f = h * 6 - of_int i0;
            p = v * (1 - s);
            q = v * (1 - s * f);
            t = v * (1 - s * (1 - f));
            i = i0 mod 6
        in if i = 0 then (v, t, p)
           else if i = 1 then (q, v, p)
           else if i = 2 then (p, v, t)
           else if i = 3 then (p, q, v)
           else if i = 4 then (t, p, v)
           else (v, p, q))"

section \<open>Color (src/screen/drawing/color.py)\<close>

text \<open>A \<open>Color\<close> object has the single slot \<open>value\<close>, a Python integer.\<close>

record Color =
  Color_value :: int


datatype ColorInterpolationMethod = hsl | hsv | rgb

text \<open>
  \<open>from_argb(a, r, g, b)\<close>: \<open>a = int(a * 255)\<close>, then
  \<open>cls((a << 24) + (r << 16) + (g << 8) + b)\<close>.
\<close>

definition from_argb :: "real \<Rightarrow> int \<Rightarrow> int \<Rightarrow> int \<Rightarrow> Color" where
  "from_argb a r g b =
     (let a' = py_int (a * 255)
      in \<lparr>Color_value = push_bit 24 a' + push_bit 16 r + push_bit 8 g + b\<rparr>)"

definition from_rgb :: "int \<Rightarrow> int \<Rightarrow> int \<Rightarrow> Color" where
  "from_rgb r g b = from_argb 1 r g b"


definition Color_r :: "Color \<Rightarrow> int" where
  "Color_r c = drop_bit 16 (Color_value c) AND 0xFF"

definition Color_g :: "Color \<Rightarrow> int" where
  "Color_g c = drop_bit 8 (Color_value c) AND 0xFF"

definition Color_b :: "Color \<Rightarrow> int" where
  "Color_b c = Color_value c AND 0xFF"

text \<open>
  \<open>_hsl_to_rgb\<close>, \<open>_rgb_to_hsl\<close>, \<open>_hsv_to_rgb\<close> and \<open>_rgb_to_hsv\<close>. Hue is an integer number
  of degrees; \<open>colorsys\<close> takes and returns it as a fraction of the circle.
\<close>

definition hsl_to_rgb :: "int \<Rightarrow> real \<Rightarrow> real \<Rightarrow> int \<times> int \<times> int" where
  "hsl_to_rgb h s l =
     (case colorsys_hls_to_rgb (of_int h / 360) l s of
        (r, g, b) \<Rightarrow> (py_int (py_round (r * 255)), py_int (py_round (g * 255)), py_int (py_round (b * 255))))"

definition rgb_to_hsl :: "int \<Rightarrow> int \<Rightarrow> int \<Rightarrow> int \<times> real \<times> real" where
  "rgb_to_hsl r g b =
     (case colorsys_rgb_to_hls (of_int r / 255) (of_int g / 255) (of_int b / 255) of
        (h, l, s) \<Rightarrow> (py_int (h * 360), s, l))"

definition hsv_to_rgb :: "int \<Rightarrow> real \<Rightarrow> real \<Rightarrow> int \<times> int \<times> int" where
  "hsv_to_rgb h s v =
     (case colorsys_hsv_to_rgb (of_int h / 360) s v of
        (r, g, b) \<Rightarrow> (py_int (py_round (r * 255)), py_int (py_round (g * 255)), py_int (py_round (b * 255))))"

definition rgb_to_hsv :: "int \<Rightarrow> int \<Rightarrow> int \<Rightarrow> int \<times> real \<times> real" where
  "rgb_to_hsv r g b =
     (case colorsys_rgb_to_hsv (of_int r / 255) (of_int g / 255) (of_int b / 255) of
        (h, s, v) \<Rightarrow> (py_int (h * 360), s, v))"

text \<open>\<open>from_ahsl\<close>, \<open>from_hsl\<close>, \<open>from_ahsv\<close>, \<open>from_hsv\<close>.\<close>

definition from_ahsl :: "real \<Rightarrow> int \<Rightarrow> real \<Rightarrow> real \<Rightarrow> Color" where
  "from_ahsl a h s l = (case hsl_to_rgb h s l of (r, g, b) \<Rightarrow> from_argb a r g b)"

definition from_hsl :: "int \<Rightarrow> real \<Rightarrow> real \<Rightarrow> Color" where
  "from_hsl h s l = from_ahsl 1 h s l"

definition from_ahsv :: "real \<Rightarrow> int \<Rightarrow> real \<Rightarrow> real \<Rightarrow> Color" where
  "from_ahsv a h s v = (case hsv_to_rgb h s v of (r, g, b) \<Rightarrow> from_argb a r g b)"

definition from_hsv :: "int \<Rightarrow> real \<Rightarrow> real \<Rightarrow> Color" where
  "from_hsv h s v = from_ahsv 1 h s v"

text \<open>\<open>_interpolate_hsl\<close>, \<open>_interpolate_hsv\<close> and \<open>_interpolate_rgb\<close>.\<close>

definition interpolate_hsl :: "Color \<Rightarrow> Color \<Rightarrow> real \<Rightarrow> Color" where
  "interpolate_hsl c1 c2 p =
     (case rgb_to_hsl (Color_r c1) (Color_g c1) (Color_b c1) of (h1, s1, l1) \<Rightarrow>
      case rgb_to_hsl (Color_r c2) (Color_g c2) (Color_b c2) of (h2, s2, l2) \<Rightarrow>
        from_hsl (py_int (utils_interpolate (of_int h1) (of_int h2) p))
                 (utils_interpolate s1 s2 p)
                 (utils_interpolate l1 l2 p))"

definition interpolate_hsv :: "Color \<Rightarrow> Color \<Rightarrow> real \<Rightarrow> Color" where
  "interpolate_hsv c1 c2 p =
     (case rgb_to_hsv (Color_r c1) (Color_g c1) (Color_b c1) of (h1, s1, v1) \<Rightarrow>
      case rgb_to_hsv (Color_r c2) (Color_g c2) (Color_b c2) of (h2, s2, v2) \<Rightarrow>
        from_hsv (py_int (utils_interpolate (of_int h1) (of_int h2) p))
                 (utils_interpolate s1 s2 p)
                 (utils_interpolate v1 v2 p))"

definition interpolate_rgb :: "Color \<Rightarrow> Color \<Rightarrow> real \<Rightarrow> Color" where
  "interpolate_rgb c1 c2 p =
     from_rgb (py_int (utils_interpolate (of_int (Color_r c1)) (of_int (Color_r c2)) p))
              (py_int (utils_interpolate (of_int (Color_g c1)) (of_int (Color_g c2)) p))
              (py_int (utils_interpolate (of_int (Color_b c1)) (of_int (Color_b c2)) p))"

text \<open>
  \<open>interpolate(c1, c2, p, *, method=None)\<close>: \<open>method or ColorInterpolationMethod.rgb\<close>,
  then the function the map \<open>_interpolation_method_map\<close> holds for it.
\<close>

definition interpolate :: "Color \<Rightarrow> Color \<Rightarrow> real \<Rightarrow> ColorInterpolationMethod option \<Rightarrow> Color" where
  "interpolate c1 c2 p method =
     (case (case method of None \<Rightarrow> rgb | Some m \<Rightarrow> m) of
        hsl \<Rightarrow> interpolate_hsl c1 c2 p
      | hsv \<Rightarrow> interpolate_hsv c1 c2 p
      | rgb \<Rightarrow> interpolate_rgb c1 c2 p)"

text \<open>Rounding to the nearest integer, as the specification asks of each channel.\<close>

definition nearest :: "real \<Rightarrow> int" where
  "nearest x = py_int (py_round x)"

section \<open>Theorems: Style\<close>

lemma Style_init_values: "Style_values (Style_init vs) = fset_of_list vs"
  by (simp add: Style_init_def)

lemma Style_reset_values: "Style_values Style_reset = {|0|}"
  by (simp add: Style_reset_def Style_init_def)

lemma Style_eq_reset: "Style_eq x Style_reset = (Style_values x = {|0|})"
  by (simp add: Style_eq_def Style_reset_values)

lemma fset_of_sorted_append:
  "fset_of_list (sorted_list_of_fset A @ sorted_list_of_fset B) = A |\<union>| B"
  by (simp add: fset_of_list_append sorted_list_of_fset_simps)

lemma Style_or_Inr:
  assumes "\<not> Style_eq x Style_reset" "\<not> Style_eq y Style_reset"
  shows "Style_or x y = Inr \<lparr>Style_values = Style_values x |\<union>| Style_values y\<rparr>"
  using assms by (simp add: Style_or_def Style_init_def fset_of_sorted_append)

lemma union_not_reset:
  assumes "A \<noteq> {|0::int|}" "B \<noteq> {|0|}"
  shows "A |\<union>| B \<noteq> {|0|}"
proof
  assume u: "A |\<union>| B = {|0|}"
  then have "A |\<subseteq>| {|0|}" "B |\<subseteq>| {|0|}" by auto
  then have "A = {||} \<or> A = {|0|}" "B = {||} \<or> B = {|0|}" by auto
  with assms have "A = {||}" "B = {||}" by auto
  with u show False by auto
qed

text \<open>
  Claim C3. For two styles \<open>x\<close> and \<open>y\<close>, \<open>x | y\<close> raises \<open>ArithmeticError\<close> exactly
  when \<open>x\<close> or \<open>y\<close> equals \<open>Style.reset\<close>, the style whose set of values is \<open>{0}\<close>, and
  it raises nothing else. When it raises, the store of style objects is returned as it
  was: neither operand is written.
\<close>

theorem Style_or_raises_iff:
  "(Style_or x y = Inl ArithmeticError) = (Style_eq x Style_reset \<or> Style_eq y Style_reset)
   \<and> (\<exists>e. Style_or x y = Inl e) = (Style_eq x Style_reset \<or> Style_eq y Style_reset)
   \<and> Style_values Style_reset = {|0|}
   \<and> Style_eq x Style_reset = (Style_values x = {|0|})
   \<and> (a < length st \<and> b < length st \<and> (Style_eq (st ! a) Style_reset \<or> Style_eq (st ! b) Style_reset)
        \<longrightarrow> Style_or_at st a b = Some (Inl ArithmeticError, st))"
  by (auto simp: Style_or_def Style_reset_values Style_eq_reset Style_or_at_def)

text \<open>The store part at a store holding \<open>Style(1)\<close> and \<open>Style.reset\<close>.\<close>

theorem Style_or_raises_iff_witness:
  "Style_or (Style_init [1]) Style_reset = Inl ArithmeticError
   \<and> Style_or Style_reset (Style_init [1]) = Inl ArithmeticError
   \<and> Style_or (Style_init [1]) (Style_init [4]) \<noteq> Inl ArithmeticError
   \<and> Style_or_at [Style_init [1], Style_reset] 0 1 = Some (Inl ArithmeticError, [Style_init [1], Style_reset])"
  using Style_or_raises_iff [of "Style_init [1]" Style_reset 0 "[Style_init [1], Style_reset]" 1]
    Style_or_raises_iff [of Style_reset "Style_init [1]"]
    Style_or_raises_iff [of "Style_init [1]" "Style_init [4]"]
  by (simp add: Style_eq_def Style_reset_def Style_init_def)


lemma sorted_values:
  "sorted (sorted_list_of_fset A) \<and> distinct (sorted_list_of_fset A)
   \<and> set (sorted_list_of_fset A) = fset A"
  by (simp add: sorted_list_of_fset.rep_eq)

text \<open>
  Claim C4. \<open>build\<close> returns \<open>ESC [\<close>, then the decimal values of the style in ascending
  order without repetition, joined by semicolons, then \<open>m\<close>. For two styles other than
  \<open>reset\<close>, \<open>x | y\<close> holds the union of the two sets of values. \<open>Style(1) | Style(4)\<close>
  holds \<open>{1, 4}\<close> and builds \<open>ESC [1;4m\<close>; \<open>Style(1) == Style(1)\<close> is true and
  \<open>Style(1) == Style(2)\<close> is false.
\<close>

theorem build_format:
  "build s = [CHR 0x1B, CHR ''[''] @ join '';'' (map str_int (sorted_list_of_fset (Style_values s))) @ ''m''
   \<and> sorted (sorted_list_of_fset (Style_values s))
   \<and> distinct (sorted_list_of_fset (Style_values s))
   \<and> set (sorted_list_of_fset (Style_values s)) = fset (Style_values s)
   \<and> (\<not> Style_eq x Style_reset \<and> \<not> Style_eq y Style_reset \<longrightarrow>
        (\<exists>z. Style_or x y = Inr z \<and> Style_values z = Style_values x |\<union>| Style_values y))
   \<and> (\<exists>z. Style_or (Style_init [1]) (Style_init [4]) = Inr z \<and> Style_values z = {|1, 4|}
          \<and> build z = CHR 0x1B # ''[1;4m'')
   \<and> Style_eq (Style_init [1]) (Style_init [1])
   \<and> \<not> Style_eq (Style_init [1]) (Style_init [2])"
proof -
  have b: "build \<lparr>Style_values = {|1, 4|}\<rparr> = CHR 0x1B # ''[1;4m''"
    by code_simp
  have o: "Style_or (Style_init [1]) (Style_init [4]) = Inr \<lparr>Style_values = {|1, 4|}\<rparr>"
    by (auto simp: Style_or_Inr Style_eq_reset Style_init_values)
  have e: "Style_eq (Style_init [1]) (Style_init [1]) \<and> \<not> Style_eq (Style_init [1]) (Style_init [2])"
    by (simp add: Style_eq_def Style_init_values)
  show ?thesis
    using b o e by (simp add: build_def sorted_values Style_or_Inr)
qed

text \<open>The union at \<open>Style(1, 22) | Style(4, 1)\<close>.\<close>

theorem build_format_witness:
  "\<not> Style_eq (Style_init [1, 22]) Style_reset \<and> \<not> Style_eq (Style_init [4, 1]) Style_reset
   \<and> (\<exists>z. Style_or (Style_init [1, 22]) (Style_init [4, 1]) = Inr z \<and> Style_values z = {|1, 4, 22|})"
proof -
  have h: "\<not> Style_eq (Style_init [1, 22]) Style_reset \<and> \<not> Style_eq (Style_init [4, 1]) Style_reset"
    by (simp add: Style_eq_reset Style_init_values)
  have u: "Style_values (Style_init [1, 22]) |\<union>| Style_values (Style_init [4, 1]) = {|1, 4, 22|}"
    by (auto simp: Style_init_values)
  show ?thesis
    using h u build_format [of "Style_init [1]" "Style_init [1, 22]" "Style_init [4, 1]"] by simp
qed

text \<open>
  Claim C9. On styles other than \<open>reset\<close>, \<open>|\<close> never raises and is commutative,
  idempotent and associative with respect to \<open>==\<close>; the constructor collapses repeated
  integers, so \<open>Style(1, 1) == Style(1)\<close>.
\<close>

theorem Style_or_algebra:
  assumes "\<not> Style_eq x Style_reset" "\<not> Style_eq y Style_reset" "\<not> Style_eq z Style_reset"
  shows "(\<exists>u v. Style_or x y = Inr u \<and> Style_or y x = Inr v \<and> Style_eq u v)
   \<and> (\<exists>u. Style_or x x = Inr u \<and> Style_eq u x)
   \<and> (\<exists>u v. or_then (Style_or x y) (\<lambda>s. Style_or s z) = Inr u
            \<and> or_then (Style_or y z) (\<lambda>s. Style_or x s) = Inr v \<and> Style_eq u v)
   \<and> Style_eq (Style_init [1, 1]) (Style_init [1])"
proof -
  have xy: "\<not> Style_eq \<lparr>Style_values = Style_values x |\<union>| Style_values y\<rparr> Style_reset"
    and yz: "\<not> Style_eq \<lparr>Style_values = Style_values y |\<union>| Style_values z\<rparr> Style_reset"
    using assms by (simp_all add: Style_eq_reset union_not_reset)
  have c: "\<exists>u v. Style_or x y = Inr u \<and> Style_or y x = Inr v \<and> Style_eq u v"
    using assms by (simp add: Style_or_Inr Style_eq_def funion_commute)
  have i: "\<exists>u. Style_or x x = Inr u \<and> Style_eq u x"
    using assms by (simp add: Style_or_Inr Style_eq_def)
  have a: "\<exists>u v. or_then (Style_or x y) (\<lambda>s. Style_or s z) = Inr u
            \<and> or_then (Style_or y z) (\<lambda>s. Style_or x s) = Inr v \<and> Style_eq u v"
    using assms xy yz by (simp add: or_then_def Style_or_Inr Style_eq_def funion_assoc)
  have d: "Style_eq (Style_init [1, 1]) (Style_init [1])"
    by (simp add: Style_eq_def Style_init_values)
  from c i a d show ?thesis by blast
qed

text \<open>The three hypotheses hold of \<open>Style(1)\<close>, \<open>Style(4, 0)\<close> and \<open>Style()\<close>.\<close>

theorem Style_or_algebra_witness:
  "\<not> Style_eq (Style_init [1]) Style_reset \<and> \<not> Style_eq (Style_init [4, 0]) Style_reset
   \<and> \<not> Style_eq (Style_init []) Style_reset
   \<and> (\<exists>u. or_then (Style_or (Style_init [1]) (Style_init [4, 0])) (\<lambda>s. Style_or s (Style_init [])) = Inr u)"
proof -
  have h: "\<not> Style_eq (Style_init [1]) Style_reset" "\<not> Style_eq (Style_init [4, 0]) Style_reset"
    "\<not> Style_eq (Style_init []) Style_reset"
    by (auto simp add: Style_eq_reset Style_init_values)
  from Style_or_algebra [OF h] h show ?thesis by blast
qed


section \<open>Theorems: Stack, Popup and property assignment\<close>

text \<open>
  Claim C1, as amended. \<open>Stack.measure_core\<close> raises \<open>NotImplementedError\<close> for every
  stack and every available height and width, whatever the children, the spacing and the
  bullet; it returns no size. \<open>Stack.render_core\<close> raises the same exception.
\<close>

theorem measure_core_not_implemented:
  "measure_core self h w = Inl NotImplementedError
   \<and> (\<forall>r. measure_core self h w \<noteq> Inr r)
   \<and> (render_core self h w :: error + 'r) = Inl NotImplementedError"
  by (simp add: measure_core_def render_core_def)

text \<open>
  Claim C1 as stated fails. For three children of natural sizes 1 x 3, 3 x 4 and 2 x 5
  (height x width), spacing 2 and no bullet, the specification's measure is height 3 and
  width \<open>3 + 4 + 5 + 2 * 2 = 16\<close>; \<open>measure_core\<close> does not return it.
\<close>

theorem measure_core_counterexample:
  "spec_measure_horizontal [(1, 3), (3, 4), (2, 5)] 2 0 10 = (3, 16)
   \<and> measure_core \<lparr>bullet = PyEnum ''Bullet'' ''none'', children = [(1, 3), (3, 4), (2, 5 :: int)] :: (int \<times> int) list,
        orientation = PyEnum ''Orientation'' ''horizontal'', spacing = 2\<rparr> 10 100
      \<noteq> Inr (spec_measure_horizontal [(1, 3), (3, 4), (2, 5)] 2 0 10)"
  by (simp add: measure_core_def spec_measure_horizontal_def)

text \<open>
  Claim C2. \<open>_bullet_invalidate_measure\<close> is false exactly when the old and the new
  bullet are both strings of the same length, and true otherwise: for any change of
  length and for any operand that is not a string. Assigning \<open>"#"\<close> over \<open>"*"\<close> leaves
  measure clean, assigning \<open>"**"\<close> over \<open>"*"\<close> dirties it. The paint rule of \<open>bullet\<close> is
  the constant \<open>True\<close>, which fires on every change.
\<close>

theorem bullet_invalidate_measure_iff:
  "bullet_invalidate_measure before after =
     (\<not> (\<exists>s t. before = PyStr s \<and> after = PyStr t \<and> length s = length t))
   \<and> \<not> bullet_invalidate_measure (py_str ''*'') (py_str ''#'')
   \<and> bullet_invalidate_measure (py_str ''*'') (py_str ''**'')
   \<and> measure_rule Stack_bullet = Predicate bullet_invalidate_measure
   \<and> paint_rule Stack_bullet = Constant True
   \<and> fires (paint_rule Stack_bullet) before after
   \<and> fires (measure_rule Stack_bullet) before after = bullet_invalidate_measure before after"
  by (auto simp: bullet_invalidate_measure_def utils_len_def py_str_def Stack_bullet_def fires_def
      split: pyval.splits)

text \<open>
  Claim C8. A value is admitted when it is of the declared type or union, \<open>None\<close> when
  the property is nullable. Assignment raises \<open>TypeConstraintError\<close> exactly for the
  values that are not admitted, and then returns the control as it was: stored values
  and flags are unmodified. An admitted value is stored as it is.
\<close>

theorem assign_type_constraint:
  "accepts d v = (if v = PyNone then nullable d else type_spec d v)
   \<and> (fst (assign d name v c) = Some TypeConstraintError) = (\<not> accepts d v)
   \<and> (\<not> accepts d v \<longrightarrow> assign d name v c = (Some TypeConstraintError, c))
   \<and> (accepts d v \<longrightarrow> fst (assign d name v c) = None \<and> props (snd (assign d name v c)) name = Some v)"
  by (simp add: assign_def accepts_def Let_def)

text \<open>
  A string assigned to \<open>Stack.spacing\<close> and \<open>None\<close> assigned to the non-nullable
  \<open>Stack.children\<close> are refused; the integer 3 assigned to \<open>Stack.spacing\<close> is stored.
\<close>

theorem assign_type_constraint_witness:
  "\<not> accepts Stack_spacing (py_str ''x'')
   \<and> assign Stack_spacing ''spacing'' (py_str ''x'') \<lparr>props = [''spacing'' \<mapsto> PyInt 2], measure_dirty = False, paint_dirty = False\<rparr>
       = (Some TypeConstraintError, \<lparr>props = [''spacing'' \<mapsto> PyInt 2], measure_dirty = False, paint_dirty = False\<rparr>)
   \<and> \<not> accepts Stack_children PyNone
   \<and> fst (assign Stack_children ''children'' PyNone \<lparr>props = Map.empty, measure_dirty = False, paint_dirty = False\<rparr>) = Some TypeConstraintError
   \<and> accepts Stack_spacing (PyInt 3)
   \<and> props (snd (assign Stack_spacing ''spacing'' (PyInt 3) \<lparr>props = [''spacing'' \<mapsto> PyInt 2], measure_dirty = False, paint_dirty = False\<rparr>)) ''spacing'' = Some (PyInt 3)"
proof -
  have h: "\<not> accepts Stack_spacing (py_str ''x'')" "\<not> accepts Stack_children PyNone" "accepts Stack_spacing (PyInt 3)"
    by (simp_all add: accepts_def Stack_spacing_def Stack_children_def py_str_def is_int_def)
  show ?thesis
    using h
      assign_type_constraint [of Stack_spacing "py_str ''x''" "''spacing''" "\<lparr>props = [''spacing'' \<mapsto> PyInt 2], measure_dirty = False, paint_dirty = False\<rparr>"]
      assign_type_constraint [of Stack_children PyNone "''children''" "\<lparr>props = Map.empty, measure_dirty = False, paint_dirty = False\<rparr>"]
      assign_type_constraint [of Stack_spacing "PyInt 3" "''spacing''" "\<lparr>props = [''spacing'' \<mapsto> PyInt 2], measure_dirty = False, paint_dirty = False\<rparr>"]
    by simp
qed

text \<open>
  Claim C10. The three properties of \<open>Popup\<close> declare the constant \<open>False\<close> as measure
  rule and as paint rule. Assigning any of them leaves the measure-dirty flag and the
  paint-dirty flag of the control as they were, and an admitted value is stored.
\<close>

theorem Popup_assign_no_invalidation:
  "list_all (\<lambda>(name, d). measure_rule d = Constant False \<and> paint_rule d = Constant False) Popup_properties
   \<and> ((name, d) \<in> set Popup_properties \<longrightarrow>
        measure_dirty (snd (assign d name v c)) = measure_dirty c
        \<and> paint_dirty (snd (assign d name v c)) = paint_dirty c
        \<and> (accepts d v \<longrightarrow> assign d name v c = (None, c\<lparr>props := (props c)(name \<mapsto> v)\<rparr>)))"
  by (auto simp: Popup_properties_def Popup_horizontal_offset_def Popup_placement_def
      Popup_vertical_offset_def assign_def fires_def Let_def)

text \<open>
  Assigning \<open>-3\<close> to \<open>vertical_offset\<close> of a clean control stores it and leaves the control
  clean.
\<close>

theorem Popup_assign_no_invalidation_witness:
  "(''vertical_offset'', Popup_vertical_offset) \<in> set Popup_properties
   \<and> accepts Popup_vertical_offset (PyInt (- 3))
   \<and> assign Popup_vertical_offset ''vertical_offset'' (PyInt (- 3)) \<lparr>props = Map.empty, measure_dirty = False, paint_dirty = False\<rparr>
       = (None, \<lparr>props = [''vertical_offset'' \<mapsto> PyInt (- 3)], measure_dirty = False, paint_dirty = False\<rparr>)"
proof -
  have h: "(''vertical_offset'', Popup_vertical_offset) \<in> set Popup_properties"
    "accepts Popup_vertical_offset (PyInt (- 3))"
    by (simp_all add: Popup_properties_def accepts_def Popup_vertical_offset_def is_int_def)
  show ?thesis
    using h Popup_assign_no_invalidation [of "''vertical_offset''" Popup_vertical_offset "PyInt (- 3)"
        "\<lparr>props = Map.empty, measure_dirty = False, paint_dirty = False\<rparr>"]
    by simp
qed


section \<open>Theorems: Color\<close>

text \<open>
  Masking with \<open>0xFF\<close> is the remainder modulo 256, and a shift by a multiple of 8 is a
  repeated division by 256; with these the packed value is taken apart byte by byte.
\<close>

lemma and_255: "(x::int) AND 255 = x mod 256"
proof -
  have "x AND mask 8 = x mod 2 ^ 8" by (simp only: take_bit_eq_mod flip: take_bit_eq_mask)
  then show ?thesis by (simp add: mask_eq_exp_minus_1)
qed




























text \<open>
  Claim C7 at a failing input. Between red channels 0 and 1 at \<open>p = 0.75\<close> the linear
  interpolant is 0.75, whose nearest integer is 1; \<open>interpolate\<close> stores \<open>int(0.75) = 0\<close>.
\<close>

theorem interpolate_rgb_truncates:
  "utils_interpolate 0 1 (3 / 4) = 3 / 4
   \<and> nearest (utils_interpolate 0 1 (3 / 4)) = 1
   \<and> py_int (utils_interpolate 0 1 (3 / 4)) = 0
   \<and> Color_r (from_rgb 0 0 0) = 0 \<and> Color_r (from_rgb 1 0 0) = 1
   \<and> Color_r (interpolate (from_rgb 0 0 0) (from_rgb 1 0 0) (3 / 4) None) = 0
   \<and> Color_r (interpolate (from_rgb 0 0 0) (from_rgb 1 0 0) (3 / 4) None)
        \<noteq> nearest (utils_interpolate (of_int (Color_r (from_rgb 0 0 0))) (of_int (Color_r (from_rgb 1 0 0))) (3 / 4))"
  by (simp add: interpolate_def interpolate_rgb_def from_rgb_def from_argb_def nearest_def
      Color_r_def Color_g_def Color_b_def utils_interpolate_def py_int_def py_round_def
      drop_bit_eq_div and_255)


end
